theory Spec2Isabelle
  imports Complex_Main "HOL-Library.Sublist" "HOL-Library.Word"
begin

section \<open>Data model\<close>

text \<open>
  A Go \<^verbatim>\<open>error\<close> value, identified with the text that \<^verbatim>\<open>%v\<close> prints for it.
\<close>

datatype error = Error string

fun error_text :: "error \<Rightarrow> string" where
  "error_text (Error msg) = msg"

text \<open>
  \<^verbatim>\<open>oauth2.Token\<close>: the expiry is an instant, counted in nanoseconds.  The client is
  \<^verbatim>\<open>spotify.New(authenticator.Client(ctx, token))\<close>, so it is determined by the token it
  was built from.
\<close>

record Token =
  AccessToken :: string
  RefreshToken :: string
  Expiry :: int

datatype Client = NewClient Token

text \<open>
  The part of the playback response that \<^verbatim>\<open>fetchTrackDetails\<close> reads:
  \<^verbatim>\<open>spotify.CurrentlyPlaying\<close> with its \<^verbatim>\<open>Item *FullTrack\<close> (absent when \<^verbatim>\<open>nil\<close>) and
  \<^verbatim>\<open>Progress\<close>.  \<^verbatim>\<open>spotify.Numeric\<close> is Go's \<^verbatim>\<open>int\<close>: 64 bits in two's complement, read
  with \<open>sint\<close>.
\<close>

record SimpleArtist =
  Artist_Name :: string

record SimpleAlbum =
  Album_Name :: string

record FullTrack =
  Item_Name :: string
  Item_Duration :: "64 word"
  Item_Artists :: "SimpleArtist list"
  Item_Album :: SimpleAlbum

record CurrentlyPlaying =
  Item :: "FullTrack option"
  Current_Progress :: "64 word"

text \<open>
  A \<^verbatim>\<open>float64\<close> value is a number, an infinity or not-a-number; the two zeros are not
  told apart.  Conversions and divisions round to the nearest number with a significand of
  53 bits, ties to the even significand.  Integers of 64 bits and their quotients lie far
  inside the range of the exponent, so neither overflow nor subnormal numbers occur.
\<close>

datatype float64 = Finite real | PosInf | NegInf | NaN

text \<open>The number of bits of a positive integer (0 for the others).\<close>

function bitLen :: "int \<Rightarrow> nat" where
  "bitLen n = (if n \<le> 0 then 0 else Suc (bitLen (n div 2)))"
  by pat_completeness auto
termination
  by (relation "measure nat") auto

text \<open>The integer nearest to \<open>n / d\<close> for a positive \<open>d\<close>, the even one of two that are equally near.\<close>

definition roundHalfEven :: "int \<Rightarrow> int \<Rightarrow> int" where
  "roundHalfEven n d =
     (let m = n div d; r = n mod d
      in if 2 * r < d then m else if d < 2 * r then m + 1 else if even m then m else m + 1)"

text \<open>
  \<^verbatim>\<open>float64(a)\<close> for an integer \<open>a\<close>; the result is an integer again.  An integer of at most
  53 bits is kept; a longer one is rounded at its bit 53 from the top.
\<close>

definition float64_of_int :: "int \<Rightarrow> int" where
  "float64_of_int a =
     (let e = int (bitLen \<bar>a\<bar>) - 53
      in if e \<le> 0 then a else sgn a * roundHalfEven \<bar>a\<bar> (2 ^ nat e) * 2 ^ nat e)"

text \<open>
  For positive integers \<open>p\<close> and \<open>q\<close>: the exponent of the highest power of two that is at
  most \<open>p / q\<close>, and the \<^verbatim>\<open>float64\<close> nearest to \<open>p / q\<close>, which is a multiple of the power of
  two 52 places below.
\<close>

definition floorLog2 :: "int \<Rightarrow> int \<Rightarrow> int" where
  "floorLog2 p q =
     (let k = int (bitLen p) - int (bitLen q)
      in if (if 0 \<le> k then q * 2 ^ nat k \<le> p else q \<le> p * 2 ^ nat (- k)) then k else k - 1)"

definition nearestFloat64 :: "int \<Rightarrow> int \<Rightarrow> real" where
  "nearestFloat64 p q =
     (let e = floorLog2 p q - 52
      in if 0 \<le> e then real_of_int (roundHalfEven p (q * 2 ^ nat e) * 2 ^ nat e)
         else real_of_int (roundHalfEven (p * 2 ^ nat (- e)) q) / real_of_int (2 ^ nat (- e)))"

text \<open>
  \<^verbatim>\<open>float64(a) / float64(b)\<close> for integers \<open>a\<close> and \<open>b\<close>.  Dividing by zero does not panic in
  Go: it gives an infinity, or not-a-number for 0 / 0.
\<close>

definition float64_div :: "int \<Rightarrow> int \<Rightarrow> float64" where
  "float64_div a b =
     (let x = float64_of_int a; y = float64_of_int b
      in if y = 0 then (if x = 0 then NaN else if 0 < x then PosInf else NegInf)
         else if x = 0 then Finite 0
         else Finite (real_of_int (sgn x * sgn y) * nearestFloat64 \<bar>x\<bar> \<bar>y\<bar>))"

record TrackDetails =
  Name :: string
  Progress :: float64
  Artists :: string
  Album :: string

type_synonym TrackControlAction = string

definition Play :: TrackControlAction where
  "Play = ''play''"

definition Pause :: TrackControlAction where
  "Pause = ''pause''"

definition Next :: TrackControlAction where
  "Next = ''next''"

definition pipeTrackDetails :: string where
  "pipeTrackDetails = ''fifoplayer-track''"

definition pipeTrackControl :: string where
  "pipeTrackControl = ''fifoplayer-control''"

section \<open>Effects\<close>

text \<open>
  What the program does to the outside is recorded as a trace of calls, in the order
  they are issued.  What the outside answers (the clock, the API's responses, whether a
  file operation fails) is an argument of the function that makes the call.
\<close>

datatype event =
    Auth_RefreshToken Token
  | Auth_Client Token
  | Client_PlayerCurrentlyPlaying Client
  | Client_Play Client
  | Client_Pause Client
  | Client_Next Client
  | Remove string
  | Mkfifo string
  | OpenFile string
  | File_WriteString string string
  | File_Read string nat
  | File_Close string
  | Log_Print string
  | Sleep nat

text \<open>
  One pass through a loop body either reaches the end of the body, with the loop's
  variables as they are then, or stops the process: \<^verbatim>\<open>log.Fatalf\<close> prints its message
  and calls \<^verbatim>\<open>os.Exit(1)\<close>.
\<close>

datatype 'a step = Continue 'a | Exit string

section \<open>Fetching the track details\<close>

text \<open>
  The loop \<^verbatim>\<open>for i, artist := range current.Item.Artists\<close>, with the index \<open>i\<close> and the
  string built so far.
\<close>

fun artistNamesLoop :: "nat \<Rightarrow> string \<Rightarrow> SimpleArtist list \<Rightarrow> string" where
  "artistNamesLoop i artistNames [] = artistNames"
| "artistNamesLoop i artistNames (artist # rest) =
     artistNamesLoop (i + 1)
       ((if i > 0 then artistNames @ '', '' else artistNames) @ Artist_Name artist) rest"

text \<open>
  \<^verbatim>\<open>fetchTrackDetails\<close>.  The second argument is what
  \<^verbatim>\<open>client.PlayerCurrentlyPlaying\<close> returns: an error, or a response that may be \<^verbatim>\<open>nil\<close>.
\<close>

definition fetchTrackDetails ::
  "Client \<Rightarrow> error + CurrentlyPlaying option \<Rightarrow> event list \<times> (error + TrackDetails option)" where
  "fetchTrackDetails client response =
     ([Client_PlayerCurrentlyPlaying client],
      (case response of
         Inl err \<Rightarrow> Inl err
       | Inr None \<Rightarrow> Inr None
       | Inr (Some current) \<Rightarrow>
           (case Item current of
              None \<Rightarrow> Inr None
            | Some item \<Rightarrow>
                (let progress =
                       (if sint (Item_Duration item) > 0
                        then float64_div (sint (Current_Progress current))
                               (sint (Item_Duration item))
                        else Finite 0);
                     artistNames = artistNamesLoop 0 [] (Item_Artists item)
                 in Inr (Some \<lparr>Name = Item_Name item, Progress = progress,
                                Artists = artistNames, Album = Album_Name (Item_Album item)\<rparr>)))))"

section \<open>Writing the track details\<close>

text \<open>
  \<^verbatim>\<open>writeTrackDetailsToPipe\<close>.  \<open>open_err\<close> and \<open>write_err\<close> are what \<^verbatim>\<open>os.OpenFile\<close> and
  \<^verbatim>\<open>WriteString\<close> answer (\<open>None\<close> for \<^verbatim>\<open>nil\<close>).  The deferred \<^verbatim>\<open>Close\<close> runs when the
  function returns after a successful open.
\<close>

definition writeTrackDetailsToPipe ::
  "error option \<Rightarrow> error option \<Rightarrow> string \<Rightarrow> TrackDetails option \<Rightarrow> event list \<times> error option" where
  "writeTrackDetailsToPipe open_err write_err pipePath details =
     (case open_err of
        Some err \<Rightarrow> ([OpenFile pipePath], Some err)
      | None \<Rightarrow>
          (let output =
                 (case details of
                    Some d \<Rightarrow> Name d @ '' - '' @ Artists d
                  | None \<Rightarrow> ''No track currently playing'')
           in ([OpenFile pipePath, File_WriteString pipePath output, File_Close pipePath],
               write_err)))"

section \<open>Reading a control action\<close>

text \<open>
  \<^verbatim>\<open>strings.TrimSpace\<close> removes leading and trailing white space as Unicode defines it
  (\<^verbatim>\<open>unicode.IsSpace\<close>).  A Go string is a sequence of bytes, so the white-space runes
  appear here in their UTF-8 encodings: tab, line feed, vertical tab, form feed, carriage
  return, space, U+0085, U+00A0, U+1680, U+2000 to U+200A, U+2028, U+2029, U+202F, U+205F
  and U+3000.  A byte that starts no valid encoding decodes to \<^verbatim>\<open>utf8.RuneError\<close>, which
  is no white space, and stops the trimming.
\<close>

definition spaceEncodings :: "string list" where
  "spaceEncodings =
     [[CHR 0x09], [CHR 0x0A], [CHR 0x0B], [CHR 0x0C], [CHR 0x0D], [CHR 0x20],
      [CHR 0xC2, CHR 0x85], [CHR 0xC2, CHR 0xA0],
      [CHR 0xE1, CHR 0x9A, CHR 0x80],
      [CHR 0xE2, CHR 0x80, CHR 0x80], [CHR 0xE2, CHR 0x80, CHR 0x81],
      [CHR 0xE2, CHR 0x80, CHR 0x82], [CHR 0xE2, CHR 0x80, CHR 0x83],
      [CHR 0xE2, CHR 0x80, CHR 0x84], [CHR 0xE2, CHR 0x80, CHR 0x85],
      [CHR 0xE2, CHR 0x80, CHR 0x86], [CHR 0xE2, CHR 0x80, CHR 0x87],
      [CHR 0xE2, CHR 0x80, CHR 0x88], [CHR 0xE2, CHR 0x80, CHR 0x89],
      [CHR 0xE2, CHR 0x80, CHR 0x8A],
      [CHR 0xE2, CHR 0x80, CHR 0xA8], [CHR 0xE2, CHR 0x80, CHR 0xA9],
      [CHR 0xE2, CHR 0x80, CHR 0xAF],
      [CHR 0xE2, CHR 0x81, CHR 0x9F],
      [CHR 0xE3, CHR 0x80, CHR 0x80]]"

text \<open>The number of bytes of the white-space rune a string starts or ends with, 0 if none.\<close>

definition leadingSpace :: "string \<Rightarrow> nat" where
  "leadingSpace s =
     (case filter (\<lambda>enc. prefix enc s) spaceEncodings of [] \<Rightarrow> 0 | enc # _ \<Rightarrow> length enc)"

definition trailingSpace :: "string \<Rightarrow> nat" where
  "trailingSpace s =
     (case filter (\<lambda>enc. suffix enc s) spaceEncodings of [] \<Rightarrow> 0 | enc # _ \<Rightarrow> length enc)"

function TrimLeftSpace :: "string \<Rightarrow> string" where
  "TrimLeftSpace s =
     (if leadingSpace s = 0 then s else TrimLeftSpace (drop (leadingSpace s) s))"
  by pat_completeness auto
termination
proof (relation "measure length")
  show "wf (measure length)" by simp
next
  fix s :: string
  assume some: "leadingSpace s \<noteq> 0"
  have "leadingSpace s \<le> length s"
  proof (cases "filter (\<lambda>enc. prefix enc s) spaceEncodings")
    case Nil
    then show ?thesis by (simp add: leadingSpace_def)
  next
    case (Cons enc encs)
    then have "enc \<in> set (filter (\<lambda>enc. prefix enc s) spaceEncodings)" by simp
    then have "prefix enc s" by simp
    then have "length enc \<le> length s" by (rule prefix_length_le)
    with Cons show ?thesis by (simp add: leadingSpace_def)
  qed
  with some show "(drop (leadingSpace s) s, s) \<in> measure length"
    by simp
qed

function TrimRightSpace :: "string \<Rightarrow> string" where
  "TrimRightSpace s =
     (if trailingSpace s = 0 then s else TrimRightSpace (take (length s - trailingSpace s) s))"
  by pat_completeness auto
termination
proof (relation "measure length")
  show "wf (measure length)" by simp
next
  fix s :: string
  assume some: "trailingSpace s \<noteq> 0"
  have "trailingSpace s \<le> length s"
  proof (cases "filter (\<lambda>enc. suffix enc s) spaceEncodings")
    case Nil
    then show ?thesis by (simp add: trailingSpace_def)
  next
    case (Cons enc encs)
    then have "enc \<in> set (filter (\<lambda>enc. suffix enc s) spaceEncodings)" by simp
    then have "suffix enc s" by simp
    then have "length enc \<le> length s" by (rule suffix_length_le)
    with Cons show ?thesis by (simp add: trailingSpace_def)
  qed
  with some show "(take (length s - trailingSpace s) s, s) \<in> measure length"
    by simp
qed

definition TrimSpace :: "string \<Rightarrow> string" where
  "TrimSpace s = TrimRightSpace (TrimLeftSpace s)"

text \<open>
  \<^verbatim>\<open>pipeFile.Read(buf)\<close> on a buffer of \<open>n\<close> bytes.  The outside either fails the read or
  holds some bytes for the reader; the read takes at most \<open>n\<close> of them, and with none left
  (the writer closed the pipe without writing) it returns 0 and \<^verbatim>\<open>io.EOF\<close>.
\<close>

datatype pipe_read = Read_Fails error | Delivers string

definition EOF :: error where
  "EOF = Error ''EOF''"

definition file_Read :: "nat \<Rightarrow> pipe_read \<Rightarrow> string \<times> error option" where
  "file_Read n pending =
     (case pending of
        Read_Fails err \<Rightarrow> ([], Some err)
      | Delivers bytes \<Rightarrow> if bytes = [] then ([], Some EOF) else (take n bytes, None))"

text \<open>\<^verbatim>\<open>readTrackControlFromPipe\<close>; the pair returned by \<open>file_Read\<close> is \<^verbatim>\<open>buf[:n]\<close> and \<^verbatim>\<open>err\<close>.\<close>

definition readTrackControlFromPipe ::
  "error option \<Rightarrow> pipe_read \<Rightarrow> string \<Rightarrow> event list \<times> (error + TrackControlAction)" where
  "readTrackControlFromPipe open_err pending pipePath =
     (case open_err of
        Some err \<Rightarrow> ([OpenFile pipePath], Inl err)
      | None \<Rightarrow>
          (case file_Read 128 pending of
             (buf, Some err) \<Rightarrow>
               ([OpenFile pipePath, File_Read pipePath 128, File_Close pipePath], Inl err)
           | (buf, None) \<Rightarrow>
               ([OpenFile pipePath, File_Read pipePath 128, File_Close pipePath],
                Inr (TrimSpace buf))))"

section \<open>The two loops of startFifoPipes\<close>

text \<open>
  \<^verbatim>\<open>startFifoPipes\<close> runs the publisher loop in a goroutine and the control loop on the main
  thread.  Both use the variables \<^verbatim>\<open>client\<close> and \<^verbatim>\<open>token\<close>; each loop is modelled on its
  own, a pass starting from the values that the variables hold when it begins.
\<close>

text \<open>
  \<^verbatim>\<open>refreshTokenAndClient\<close>.  The source drops both results of
  \<^verbatim>\<open>authenticator.RefreshToken\<close> and returns the token it was given, with a client built
  from it.
\<close>

definition refreshTokenAndClient :: "Token \<Rightarrow> event list \<times> Client \<times> Token" where
  "refreshTokenAndClient token =
     ([Auth_RefreshToken token, Auth_Client token], NewClient token, token)"

text \<open>\<^verbatim>\<open>createTempNamedPipe\<close>; \<open>mkfifo_err\<close> is what running \<^verbatim>\<open>mkfifo\<close> answers.\<close>

definition createTempNamedPipe :: "error option \<Rightarrow> string \<Rightarrow> event list \<times> (error + string)" where
  "createTempNamedPipe mkfifo_err name =
     (let pipePath = ''/tmp/'' @ name
      in case mkfifo_err of
           Some err \<Rightarrow>
             ([Remove pipePath, Log_Print ''creating named pipe'', Mkfifo pipePath], Inl err)
         | None \<Rightarrow>
             ([Remove pipePath, Log_Print ''creating named pipe'', Mkfifo pipePath,
               Log_Print (''created pipe '' @ pipePath @ [CHR 0x0A])], Inr pipePath))"

text \<open>
  What the outside answers during one pass of the publisher loop: the clock at the expiry
  check, the playback response, and the results of opening and writing the track pipe.
\<close>

record track_io =
  track_now :: int
  track_playing :: "error + CurrentlyPlaying option"
  track_open :: "error option"
  track_write :: "error option"

text \<open>
  One pass through the body of the publisher loop, on the variables \<^verbatim>\<open>client\<close> and
  \<^verbatim>\<open>token\<close>.  \<^verbatim>\<open>token.Expiry.Before(time.Now())\<close> holds when the expiry is strictly earlier
  than the clock.  The sleep is counted in seconds.
\<close>

definition trackIteration ::
  "string \<Rightarrow> track_io \<Rightarrow> Client \<times> Token \<Rightarrow> event list \<times> (Client \<times> Token) step" where
  "trackIteration pipe io vars =
     (let (ev_refresh, client, token) =
            (if Expiry (snd vars) < track_now io then refreshTokenAndClient (snd vars)
             else ([], fst vars, snd vars));
          (ev_fetch, fetched) = fetchTrackDetails client (track_playing io)
      in case fetched of
           Inl err \<Rightarrow>
             (ev_refresh @ ev_fetch,
              Exit (''unable to fetch track details: '' @ error_text err))
         | Inr details \<Rightarrow>
             (case writeTrackDetailsToPipe (track_open io) (track_write io) pipe details of
                (ev_write, Some err) \<Rightarrow>
                  (ev_refresh @ ev_fetch @ ev_write,
                   Exit (''unable to write to named pipe: '' @ error_text err))
              | (ev_write, None) \<Rightarrow>
                  (ev_refresh @ ev_fetch @ ev_write @ [Sleep 3], Continue (client, token))))"

text \<open>
  The publisher loop on the answers of the outside for its first passes: it stops at the
  first pass that exits, and is still running when the answers given are used up.
\<close>

fun trackLoop ::
  "string \<Rightarrow> track_io list \<Rightarrow> Client \<times> Token \<Rightarrow> event list \<times> (Client \<times> Token) step" where
  "trackLoop pipe [] vars = ([], Continue vars)"
| "trackLoop pipe (io # ios) vars =
     (case trackIteration pipe io vars of
        (ev, Exit msg) \<Rightarrow> (ev, Exit msg)
      | (ev, Continue vars') \<Rightarrow>
          (case trackLoop pipe ios vars' of (ev', r) \<Rightarrow> (ev @ ev', r)))"

text \<open>The goroutine of \<^verbatim>\<open>startFifoPipes\<close>: it creates the track pipe, then loops.\<close>

definition trackPublisher ::
  "error option \<Rightarrow> track_io list \<Rightarrow> Client \<times> Token \<Rightarrow> event list \<times> (Client \<times> Token) step" where
  "trackPublisher mkfifo_err ios vars =
     (case createTempNamedPipe mkfifo_err pipeTrackDetails of
        (ev, Inl err) \<Rightarrow> (ev, Exit (''could not make named pipe: '' @ error_text err))
      | (ev, Inr pipe) \<Rightarrow>
          (case trackLoop pipe ios vars of (ev', r) \<Rightarrow> (ev @ ev', r)))"

text \<open>
  What the outside answers during one pass of the control loop: the results of opening and
  reading the control pipe, the clock at the expiry check, and the result of the API call
  that the pass dispatches, if it dispatches one.
\<close>

record control_io =
  control_open :: "error option"
  control_read :: pipe_read
  control_now :: int
  control_api :: "error option"

text \<open>The \<^verbatim>\<open>switch action\<close> of the control loop; it has no default case.\<close>

definition switchAction :: "Client \<Rightarrow> error option \<Rightarrow> TrackControlAction \<Rightarrow> event list" where
  "switchAction client api_err action =
     (if action = Play then
        [Client_Play client,
         Log_Print (case api_err of
                      Some err \<Rightarrow> ''failed to play track: '' @ error_text err @ [CHR 0x0A]
                    | None \<Rightarrow> ''playing track'')]
      else if action = Pause then
        [Client_Pause client,
         Log_Print (case api_err of
                      Some err \<Rightarrow> ''failed to pause track: '' @ error_text err @ [CHR 0x0A]
                    | None \<Rightarrow> ''paused track'')]
      else if action = Next then
        [Client_Next client,
         Log_Print (case api_err of
                      Some err \<Rightarrow> ''failed to skip track: '' @ error_text err @ [CHR 0x0A]
                    | None \<Rightarrow> ''skipped track'')]
      else [])"

text \<open>One pass through the body of the control loop.\<close>

definition controlIteration ::
  "string \<Rightarrow> control_io \<Rightarrow> Client \<times> Token \<Rightarrow> event list \<times> (Client \<times> Token) step" where
  "controlIteration pipe io vars =
     (case readTrackControlFromPipe (control_open io) (control_read io) pipe of
        (ev_read, Inl err) \<Rightarrow>
          (ev_read, Exit (''unable to fetch track details: '' @ error_text err))
      | (ev_read, Inr action) \<Rightarrow>
          (let (ev_refresh, client, token) =
                 (if Expiry (snd vars) < control_now io then refreshTokenAndClient (snd vars)
                  else ([], fst vars, snd vars))
           in (ev_read @ ev_refresh @ switchAction client (control_api io) action,
               Continue (client, token))))"

fun controlLoop ::
  "string \<Rightarrow> control_io list \<Rightarrow> Client \<times> Token \<Rightarrow> event list \<times> (Client \<times> Token) step" where
  "controlLoop pipe [] vars = ([], Continue vars)"
| "controlLoop pipe (io # ios) vars =
     (case controlIteration pipe io vars of
        (ev, Exit msg) \<Rightarrow> (ev, Exit msg)
      | (ev, Continue vars') \<Rightarrow>
          (case controlLoop pipe ios vars' of (ev', r) \<Rightarrow> (ev @ ev', r)))"

text \<open>The main thread of \<^verbatim>\<open>startFifoPipes\<close>: it creates the control pipe, then loops.\<close>

definition controlListener ::
  "error option \<Rightarrow> control_io list \<Rightarrow> Client \<times> Token \<Rightarrow> event list \<times> (Client \<times> Token) step" where
  "controlListener mkfifo_err ios vars =
     (case createTempNamedPipe mkfifo_err pipeTrackControl of
        (ev, Inl err) \<Rightarrow> (ev, Exit (''could not make named pipe: '' @ error_text err))
      | (ev, Inr pipe) \<Rightarrow>
          (case controlLoop pipe ios vars of (ev', r) \<Rightarrow> (ev @ ev', r)))"

section \<open>Observations on traces and strings\<close>

text \<open>The strings handed to \<^verbatim>\<open>WriteString\<close>, the calls of the playback API that act on the
  player, the calls that open, write, read and close a file, each with its path, the
  fetches of the playback state and the token refreshes of a trace.\<close>

fun written :: "event list \<Rightarrow> string list" where
  "written [] = []"
| "written (File_WriteString path output # evs) = output # written evs"
| "written (ev # evs) = written evs"

fun isControlCall :: "event \<Rightarrow> bool" where
  "isControlCall (Client_Play client) = True"
| "isControlCall (Client_Pause client) = True"
| "isControlCall (Client_Next client) = True"
| "isControlCall ev = False"

fun isPipeIO :: "event \<Rightarrow> bool" where
  "isPipeIO (OpenFile path) = True"
| "isPipeIO (File_WriteString path output) = True"
| "isPipeIO (File_Read path n) = True"
| "isPipeIO (File_Close path) = True"
| "isPipeIO ev = False"

fun isFetch :: "event \<Rightarrow> bool" where
  "isFetch (Client_PlayerCurrentlyPlaying client) = True"
| "isFetch ev = False"

fun isRefresh :: "event \<Rightarrow> bool" where
  "isRefresh (Auth_RefreshToken token) = True"
| "isRefresh ev = False"

text \<open>
  The artist string as the specification words it: the names joined with a separator.
\<close>

fun joinWith :: "string \<Rightarrow> string list \<Rightarrow> string" where
  "joinWith sep [] = []"
| "joinWith sep [name] = name"
| "joinWith sep (name # name' # names) = name @ sep @ joinWith sep (name' # names)"

text \<open>The number of places of a string at which a separator starts.\<close>

fun occurrences :: "string \<Rightarrow> string \<Rightarrow> nat" where
  "occurrences sep [] = 0"
| "occurrences sep (c # s) = (if prefix sep (c # s) then 1 else 0) + occurrences sep s"

text \<open>
  What a reader of the track pipe does to get the names back: it cuts the artist string at
  every comma followed by a space.  \<open>field\<close> is the name read so far.
\<close>

fun splitArtists :: "string \<Rightarrow> string \<Rightarrow> string list" where
  "splitArtists field [] = [field]"
| "splitArtists field [c] = [field @ [c]]"
| "splitArtists field (c # d # s) =
     (if c = CHR '','' \<and> d = CHR '' '' then field # splitArtists [] s
      else splitArtists (field @ [c]) (d # s))"

text \<open>A \<^verbatim>\<open>float64\<close> that is a number between 0 and 1, the bounds included.\<close>

definition inUnitInterval :: "float64 \<Rightarrow> bool" where
  "inUnitInterval x = (case x of Finite r \<Rightarrow> 0 \<le> r \<and> r \<le> 1 | _ \<Rightarrow> False)"

section \<open>Lemmas on the artist string\<close>

lemma artistNamesLoop_later:
  "i > 0 \<Longrightarrow> artistNamesLoop i acc artists =
     acc @ concat (map (\<lambda>artist. '', '' @ Artist_Name artist) artists)"
  by (induction artists arbitrary: i acc) simp_all

lemma joinWith_Cons:
  "joinWith sep (name # names) = name @ concat (map (\<lambda>name'. sep @ name') names)"
  by (induction names arbitrary: name) simp_all

lemma artistNamesLoop_join:
  "artistNamesLoop 0 [] artists = joinWith '', '' (map Artist_Name artists)"
proof (cases artists)
  case Nil
  then show ?thesis by simp
next
  case (Cons a as)
  have "artistNamesLoop 0 [] (a # as) = artistNamesLoop 1 (Artist_Name a) as" by simp
  also have "\<dots> = Artist_Name a @ concat (map (\<lambda>artist. '', '' @ Artist_Name artist) as)"
    by (rule artistNamesLoop_later) simp
  also have "\<dots> = joinWith '', '' (map Artist_Name (a # as))"
    by (simp add: joinWith_Cons comp_def)
  finally show ?thesis using Cons by simp
qed

lemma occurrences_before_comma:
  "occurrences '', '' (s @ CHR '','' # u) =
     occurrences '', '' s + occurrences '', '' (CHR '','' # u)"
proof (induction s)
  case Nil
  then show ?case by simp
next
  case (Cons c s)
  then show ?case by (cases s) simp_all
qed

lemma occurrences_sep: "occurrences '', '' ('', '' @ t) = Suc (occurrences '', '' t)"
  by simp

lemma occurrences_join:
  "names \<noteq> [] \<Longrightarrow>
     occurrences '', '' (joinWith '', '' names) =
       (length names - 1) + sum_list (map (occurrences '', '') names)"
proof (induction "'', ''" names rule: joinWith.induct)
  case 1
  then show ?case by simp
next
  case (2 name)
  then show ?case by simp
next
  case (3 name name' names)
  have "occurrences '', '' (name @ '', '' @ joinWith '', '' (name' # names)) =
      occurrences '', '' name + occurrences '', '' ('', '' @ joinWith '', '' (name' # names))"
    using occurrences_before_comma [of name "CHR '' '' # joinWith '', '' (name' # names)"]
    by simp
  with 3 show ?case by (simp only: joinWith.simps occurrences_sep) simp
qed

lemma splitArtists_plain:
  "occurrences '', '' s = 0 \<Longrightarrow> splitArtists field s = [field @ s]"
  by (induction field s rule: splitArtists.induct) (auto split: if_splits)

lemma splitArtists_sep:
  "occurrences '', '' s = 0 \<Longrightarrow>
     splitArtists field (s @ '', '' @ t) = (field @ s) # splitArtists [] t"
proof (induction s arbitrary: field)
  case Nil
  then show ?case by simp
next
  case (Cons c s)
  then show ?case by (cases s) (auto split: if_splits)
qed

lemma splitArtists_join:
  "names \<noteq> [] \<Longrightarrow> \<forall>name \<in> set names. occurrences '', '' name = 0 \<Longrightarrow>
     splitArtists [] (joinWith '', '' names) = names"
proof (induction "'', ''" names rule: joinWith.induct)
  case 1
  then show ?case by simp
next
  case (2 name)
  then show ?case by (simp add: splitArtists_plain)
next
  case (3 name name' names)
  then show ?case using splitArtists_sep [of name "[]" "joinWith '', '' (name' # names)"] by simp
qed

section \<open>Lemmas on the publisher loop\<close>

lemma fetchTrackDetails_client:
  "snd (fetchTrackDetails client response) = snd (fetchTrackDetails client' response)"
  by (simp add: fetchTrackDetails_def)

lemma fetchTrackDetails_events:
  "fst (fetchTrackDetails client response) = [Client_PlayerCurrentlyPlaying client]"
  by (simp add: fetchTrackDetails_def)

lemma written_append: "written (evs @ evs') = written evs @ written evs'"
  by (induction evs rule: written.induct) simp_all

lemma written_refresh: "written (fst (refreshTokenAndClient token)) = []"
  by (simp add: refreshTokenAndClient_def)

lemma trackIteration_written:
  assumes "snd (fetchTrackDetails client (track_playing io)) = Inr details"
  shows "written (fst (trackIteration pipe io vars)) =
           written (fst (writeTrackDetailsToPipe (track_open io) (track_write io) pipe details))"
proof -
  have "\<And>c. snd (fetchTrackDetails c (track_playing io)) = Inr details"
    using assms fetchTrackDetails_client by metis
  then have "\<And>c. fetchTrackDetails c (track_playing io) = ([Client_PlayerCurrentlyPlaying c], Inr details)"
    by (metis fetchTrackDetails_events prod.collapse)
  then show ?thesis
    by (simp add: trackIteration_def refreshTokenAndClient_def written_append
        split: prod.splits option.splits)
qed

lemma trackIteration_pipeIO:
  assumes "snd (fetchTrackDetails client (track_playing io)) = Inr details"
  shows "filter isPipeIO (fst (trackIteration pipe io vars)) =
           filter isPipeIO
             (fst (writeTrackDetailsToPipe (track_open io) (track_write io) pipe details))"
proof -
  have "\<And>c. snd (fetchTrackDetails c (track_playing io)) = Inr details"
    using assms fetchTrackDetails_client by metis
  then have "\<And>c. fetchTrackDetails c (track_playing io) =
      ([Client_PlayerCurrentlyPlaying c], Inr details)"
    by (metis fetchTrackDetails_events prod.collapse)
  then show ?thesis
    by (simp add: trackIteration_def refreshTokenAndClient_def
        split: prod.splits option.splits)
qed

lemma trackPublisher_first_pass:
  "filter isPipeIO (fst (trackPublisher None [io] vars)) =
     filter isPipeIO (fst (trackIteration ''/tmp/fifoplayer-track'' io vars))"
proof (cases "trackIteration ''/tmp/fifoplayer-track'' io vars")
  case (Pair ev r)
  then show ?thesis
    by (cases r) (simp_all add: trackPublisher_def createTempNamedPipe_def pipeTrackDetails_def Let_def)
qed

lemma fetchTrackDetails_item:
  "snd (fetchTrackDetails client (Inr (Some \<lparr>Item = Some item, Current_Progress = position\<rparr>))) =
     Inr (Some \<lparr>Name = Item_Name item,
       Progress = (if sint (Item_Duration item) > 0
                   then float64_div (sint position) (sint (Item_Duration item)) else Finite 0),
       Artists = joinWith '', '' (map Artist_Name (Item_Artists item)),
       Album = Album_Name (Item_Album item)\<rparr>)"
  by (simp add: fetchTrackDetails_def artistNamesLoop_join)

lemma writeTrackDetailsToPipe_opened:
  "fst (writeTrackDetailsToPipe None write_err pipePath details) =
     [OpenFile pipePath,
      File_WriteString pipePath
        (case details of
           Some d \<Rightarrow> Name d @ '' - '' @ Artists d
         | None \<Rightarrow> ''No track currently playing''),
      File_Close pipePath]"
  by (simp add: writeTrackDetailsToPipe_def)

lemma fetchTrackDetails_progress_guard:
  assumes "Item current = Some item" and "sint (Item_Duration item) \<le> 0"
  shows "map_sum id (map_option Progress) (snd (fetchTrackDetails client (Inr (Some current)))) =
           Inr (Some (Finite 0))"
  using assms by (simp add: fetchTrackDetails_def)

section \<open>Progress of the track\<close>

text \<open>
  Claim C1.  The source documents \<open>Progress\<close> as a value between 0 and 1, but
  \<open>fetchTrackDetails\<close> divides the reported position by the duration as they come: for a
  response that reports 200000 ms of a track of 180000 ms it returns the \<^verbatim>\<open>float64\<close> nearest
  to 10/9, which is above 1.
\<close>

theorem fetchTrackDetails_progress_above_one:
  "map_sum id (map_option Progress)
     (snd (fetchTrackDetails (NewClient \<lparr>AccessToken = ''a'', RefreshToken = ''r'', Expiry = 0\<rparr>)
       (Inr (Some \<lparr>Item = Some \<lparr>Item_Name = ''Song A'', Item_Duration = 180000,
                                 Item_Artists = [\<lparr>Artist_Name = ''X''\<rparr>],
                                 Item_Album = \<lparr>Album_Name = ''Album''\<rparr>\<rparr>,
                    Current_Progress = 200000\<rparr>)))) =
     Inr (Some (Finite (2501999792983609 / 2251799813685248))) \<and>
   \<not> inUnitInterval (Finite (2501999792983609 / 2251799813685248))"
proof -
  have "float64_div (sint (200000 :: 64 word)) (sint (180000 :: 64 word)) =
      Finite (2501999792983609 / 2251799813685248)"
    by code_simp
  moreover have "0 < sint (180000 :: 64 word)" by simp
  ultimately show ?thesis
    by (simp add: fetchTrackDetails_item inUnitInterval_def)
qed

section \<open>The line published for a playing track\<close>

text \<open>
  Claim C2.  For a playing track \<open>writeTrackDetailsToPipe\<close> opens the pipe it is given,
  writes to it the track name, the separator \<open>'' - ''\<close>, then the artist string, and closes
  it.  A pass of the publisher loop that fetches a track item does this, and nothing else,
  to the pipe of the loop, with the artist names joined by \<open>'', ''\<close>; the publisher, whose
  pipe is \<open>''/tmp/fifoplayer-track''\<close>, writes there \<open>''Song A - X, Y''\<close> for the track named
  Song A with the artists X and Y.
\<close>

theorem track_line_format:
  "fst (writeTrackDetailsToPipe None write_err pipePath (Some details)) =
     [OpenFile pipePath,
      File_WriteString pipePath (Name details @ '' - '' @ Artists details),
      File_Close pipePath] \<and>
   filter isPipeIO (fst (trackIteration pipe
      \<lparr>track_now = now,
       track_playing = Inr (Some \<lparr>Item = Some item, Current_Progress = position\<rparr>),
       track_open = None, track_write = write_err\<rparr> vars)) =
     [OpenFile pipe,
      File_WriteString pipe
        (Item_Name item @ '' - '' @ joinWith '', '' (map Artist_Name (Item_Artists item))),
      File_Close pipe] \<and>
   filter isPipeIO (fst (trackPublisher None
      [\<lparr>track_now = now,
        track_playing =
          Inr (Some \<lparr>Item = Some \<lparr>Item_Name = ''Song A'', Item_Duration = duration,
                                    Item_Artists = [\<lparr>Artist_Name = ''X''\<rparr>, \<lparr>Artist_Name = ''Y''\<rparr>],
                                    Item_Album = album\<rparr>,
                      Current_Progress = position\<rparr>),
        track_open = None, track_write = write_err\<rparr>] vars)) =
     [OpenFile ''/tmp/fifoplayer-track'',
      File_WriteString ''/tmp/fifoplayer-track'' ''Song A - X, Y'',
      File_Close ''/tmp/fifoplayer-track'']"
proof -
  have line: "fst (writeTrackDetailsToPipe None w p (Some d)) =
      [OpenFile p, File_WriteString p (Name d @ '' - '' @ Artists d), File_Close p]" for w p d
    by (simp add: writeTrackDetailsToPipe_opened)
  have pass: "filter isPipeIO (fst (trackIteration p
      \<lparr>track_now = now,
       track_playing = Inr (Some \<lparr>Item = Some it, Current_Progress = position\<rparr>),
       track_open = None, track_write = write_err\<rparr> vars)) =
     [OpenFile p,
      File_WriteString p
        (Item_Name it @ '' - '' @ joinWith '', '' (map Artist_Name (Item_Artists it))),
      File_Close p]" for p it
  proof -
    let ?io = "\<lparr>track_now = now,
       track_playing = Inr (Some \<lparr>Item = Some it, Current_Progress = position\<rparr>),
       track_open = None, track_write = write_err\<rparr>"
    have "snd (fetchTrackDetails (fst vars) (track_playing ?io)) =
      Inr (Some \<lparr>Name = Item_Name it,
        Progress = (if sint (Item_Duration it) > 0
                    then float64_div (sint position) (sint (Item_Duration it)) else Finite 0),
        Artists = joinWith '', '' (map Artist_Name (Item_Artists it)),
        Album = Album_Name (Item_Album it)\<rparr>)"
      by (simp add: fetchTrackDetails_item)
    from trackIteration_pipeIO [OF this, of p vars] show ?thesis
      by (simp add: line)
  qed
  show ?thesis
    by (simp add: line pass trackPublisher_first_pass)
qed

section \<open>The artist string\<close>

text \<open>
  Claim C3, as amended.  The artist string that \<open>fetchTrackDetails\<close> builds is the artist
  names in the order of the input list, each as it is (nothing escaped, nothing cut), with
  \<open>'', ''\<close> between neighbours; it is empty for the empty list.  For a list of N names, N at
  least 1, the occurrences of \<open>'', ''\<close> in the string are the N - 1 between the names and
  those inside the names.  So when no name contains \<open>'', ''\<close> there are exactly N - 1 of
  them, and cutting the string at them gives the names back.
\<close>

theorem artist_string_joined:
  assumes "Item current = Some item"
  shows "\<exists>details. snd (fetchTrackDetails client (Inr (Some current))) = Inr (Some details) \<and>
     Artists details = joinWith '', '' (map Artist_Name (Item_Artists item)) \<and>
     (Item_Artists item = [] \<longrightarrow> Artists details = []) \<and>
     (Item_Artists item \<noteq> [] \<longrightarrow>
        occurrences '', '' (Artists details) =
          (length (Item_Artists item) - 1) +
          sum_list (map (\<lambda>artist. occurrences '', '' (Artist_Name artist)) (Item_Artists item))) \<and>
     (Item_Artists item \<noteq> [] \<and>
      (\<forall>artist \<in> set (Item_Artists item). occurrences '', '' (Artist_Name artist) = 0) \<longrightarrow>
        occurrences '', '' (Artists details) = length (Item_Artists item) - 1 \<and>
        splitArtists [] (Artists details) = map Artist_Name (Item_Artists item))"
proof -
  let ?names = "map Artist_Name (Item_Artists item)"
  obtain details where fetched:
    "snd (fetchTrackDetails client (Inr (Some current))) = Inr (Some details)"
    and joined: "Artists details = joinWith '', '' ?names"
    using assms by (auto simp: fetchTrackDetails_def artistNamesLoop_join)
  have count: "occurrences '', '' (Artists details) =
      (length (Item_Artists item) - 1) +
      sum_list (map (\<lambda>artist. occurrences '', '' (Artist_Name artist)) (Item_Artists item))"
    if "Item_Artists item \<noteq> []"
    using occurrences_join [of ?names] that joined by (simp add: comp_def)
  have clean: "occurrences '', '' (Artists details) = length (Item_Artists item) - 1 \<and>
      splitArtists [] (Artists details) = ?names"
    if "Item_Artists item \<noteq> []"
      and "\<forall>artist \<in> set (Item_Artists item). occurrences '', '' (Artist_Name artist) = 0"
  proof -
    have "sum_list (map (\<lambda>artist. occurrences '', '' (Artist_Name artist)) (Item_Artists item)) = 0"
      using that(2) by simp
    moreover have "splitArtists [] (joinWith '', '' ?names) = ?names"
      using that by (intro splitArtists_join) simp_all
    ultimately show ?thesis using count [OF that(1)] joined by simp
  qed
  have "Artists details = []" if "Item_Artists item = []"
    using that joined by simp
  with fetched joined count clean show ?thesis by blast
qed

theorem artist_string_joined_witness:
  "(\<exists>details.
     snd (fetchTrackDetails (NewClient \<lparr>AccessToken = ''a'', RefreshToken = ''r'', Expiry = 0\<rparr>)
       (Inr (Some \<lparr>Item = Some \<lparr>Item_Name = ''Song A'', Item_Duration = 180000,
                                 Item_Artists = [\<lparr>Artist_Name = ''Earth,Wind''\<rparr>,
                                                 \<lparr>Artist_Name = ''Fire,''\<rparr>,
                                                 \<lparr>Artist_Name = ''X''\<rparr>],
                                 Item_Album = \<lparr>Album_Name = ''Album''\<rparr>\<rparr>,
                    Current_Progress = 60000\<rparr>))) = Inr (Some details) \<and>
     Artists details = ''Earth,Wind, Fire,, X'' \<and>
     occurrences '', '' (Artists details) = 2 \<and>
     splitArtists [] (Artists details) = [''Earth,Wind'', ''Fire,'', ''X'']) \<and>
   (\<exists>details.
     snd (fetchTrackDetails (NewClient \<lparr>AccessToken = ''a'', RefreshToken = ''r'', Expiry = 0\<rparr>)
       (Inr (Some \<lparr>Item = Some \<lparr>Item_Name = ''Silence'', Item_Duration = 180000,
                                 Item_Artists = [],
                                 Item_Album = \<lparr>Album_Name = ''Album''\<rparr>\<rparr>,
                    Current_Progress = 60000\<rparr>))) = Inr (Some details) \<and>
     Artists details = [])"
proof -
  let ?client = "NewClient \<lparr>AccessToken = ''a'', RefreshToken = ''r'', Expiry = 0\<rparr>"
  let ?item = "\<lparr>Item_Name = ''Song A'', Item_Duration = 180000,
                 Item_Artists = [\<lparr>Artist_Name = ''Earth,Wind''\<rparr>, \<lparr>Artist_Name = ''Fire,''\<rparr>,
                                 \<lparr>Artist_Name = ''X''\<rparr>],
                 Item_Album = \<lparr>Album_Name = ''Album''\<rparr>\<rparr>"
  let ?current = "\<lparr>Item = Some ?item, Current_Progress = 60000\<rparr>"
  let ?item' = "\<lparr>Item_Name = ''Silence'', Item_Duration = 180000, Item_Artists = [],
                  Item_Album = \<lparr>Album_Name = ''Album''\<rparr>\<rparr>"
  let ?current' = "\<lparr>Item = Some ?item', Current_Progress = 60000\<rparr>"
  have item: "Item ?current = Some ?item" and item': "Item ?current' = Some ?item'"
    by simp_all
  have some: "Item_Artists ?item \<noteq> []" by simp
  have clean: "\<forall>artist \<in> set (Item_Artists ?item). occurrences '', '' (Artist_Name artist) = 0"
    by simp
  from artist_string_joined [OF item, of ?client] some clean
  have named: "\<exists>details.
      snd (fetchTrackDetails ?client (Inr (Some ?current))) = Inr (Some details) \<and>
      Artists details = ''Earth,Wind, Fire,, X'' \<and>
      occurrences '', '' (Artists details) = 2 \<and>
      splitArtists [] (Artists details) = [''Earth,Wind'', ''Fire,'', ''X'']"
    by auto
  from artist_string_joined [OF item', of ?client]
  have unnamed: "\<exists>details.
      snd (fetchTrackDetails ?client (Inr (Some ?current'))) = Inr (Some details) \<and>
      Artists details = []"
    by auto
  from named unnamed show ?thesis by (rule conjI)
qed

text \<open>
  The count as claim C3 states it, for every artist list, fails: a name is copied with its
  commas, so two artists of which one is named \<open>''Tyler, The Creator''\<close> give a string with
  two occurrences of the separator.
\<close>

theorem artist_string_joined_counterexample:
  "map_sum id (map_option Artists)
     (snd (fetchTrackDetails (NewClient \<lparr>AccessToken = ''a'', RefreshToken = ''r'', Expiry = 0\<rparr>)
       (Inr (Some \<lparr>Item = Some \<lparr>Item_Name = ''See You Again'', Item_Duration = 180000,
                                 Item_Artists = [\<lparr>Artist_Name = ''Tyler, The Creator''\<rparr>,
                                                 \<lparr>Artist_Name = ''Kali Uchis''\<rparr>],
                                 Item_Album = \<lparr>Album_Name = ''Flower Boy''\<rparr>\<rparr>,
                    Current_Progress = 60000\<rparr>)))) =
     Inr (Some ''Tyler, The Creator, Kali Uchis'') \<and>
   occurrences '', '' ''Tyler, The Creator, Kali Uchis'' = 2 \<and>
   length [\<lparr>Artist_Name = ''Tyler, The Creator''\<rparr>, \<lparr>Artist_Name = ''Kali Uchis''\<rparr>] - 1 = 1"
  by (simp add: fetchTrackDetails_def)

section \<open>The line published when nothing is playing\<close>

text \<open>
  Claim C6.  For no track, \<open>writeTrackDetailsToPipe\<close> opens the pipe it is given, writes to
  it exactly the string \<open>''No track currently playing''\<close>, and closes it.  Whenever
  \<open>fetchTrackDetails\<close> returns no value and the track pipe opens, a pass of the publisher
  loop does this, and nothing else, to the pipe of the loop, which for the publisher is
  \<open>''/tmp/fifoplayer-track''\<close>.  \<open>fetchTrackDetails\<close> returns no value exactly when the
  response is \<^verbatim>\<open>nil\<close> or has no item.
\<close>

theorem no_track_sentinel:
  "fst (writeTrackDetailsToPipe None write_err pipePath None) =
     [OpenFile pipePath, File_WriteString pipePath ''No track currently playing'',
      File_Close pipePath] \<and>
   (snd (fetchTrackDetails client (track_playing io)) = Inr None \<and> track_open io = None \<longrightarrow>
      filter isPipeIO (fst (trackIteration pipe io vars)) =
        [OpenFile pipe, File_WriteString pipe ''No track currently playing'', File_Close pipe] \<and>
      filter isPipeIO (fst (trackPublisher None [io] vars)) =
        [OpenFile ''/tmp/fifoplayer-track'',
         File_WriteString ''/tmp/fifoplayer-track'' ''No track currently playing'',
         File_Close ''/tmp/fifoplayer-track'']) \<and>
   (snd (fetchTrackDetails client response) = Inr None \<longleftrightarrow>
      response = Inr None \<or> (\<exists>current. response = Inr (Some current) \<and> Item current = None))"
proof -
  have line: "fst (writeTrackDetailsToPipe None w p None) =
      [OpenFile p, File_WriteString p ''No track currently playing'', File_Close p]" for w p
    by (simp add: writeTrackDetailsToPipe_opened)
  have pass: "filter isPipeIO (fst (trackIteration p io vars)) =
      [OpenFile p, File_WriteString p ''No track currently playing'', File_Close p]"
    if "snd (fetchTrackDetails client (track_playing io)) = Inr None" and "track_open io = None"
    for p
    using trackIteration_pipeIO [OF that(1), of p vars] that(2) line by simp
  have publisher: "filter isPipeIO (fst (trackPublisher None [io] vars)) =
      [OpenFile ''/tmp/fifoplayer-track'',
       File_WriteString ''/tmp/fifoplayer-track'' ''No track currently playing'',
       File_Close ''/tmp/fifoplayer-track'']"
    if "snd (fetchTrackDetails client (track_playing io)) = Inr None" and "track_open io = None"
    using pass [OF that] by (simp add: trackPublisher_first_pass)
  have "snd (fetchTrackDetails client response) = Inr None \<longleftrightarrow>
      response = Inr None \<or> (\<exists>current. response = Inr (Some current) \<and> Item current = None)"
    by (auto simp: fetchTrackDetails_def Let_def split: sum.splits option.splits)
  with line pass publisher show ?thesis by blast
qed

theorem no_track_sentinel_witness:
  "snd (fetchTrackDetails (NewClient \<lparr>AccessToken = ''a'', RefreshToken = ''r'', Expiry = 0\<rparr>)
     (track_playing \<lparr>track_now = 5, track_playing = Inr (Some \<lparr>Item = None, Current_Progress = 0\<rparr>),
                     track_open = None, track_write = None\<rparr>)) = Inr None \<and>
   filter isPipeIO (fst (trackPublisher None
     [\<lparr>track_now = 5, track_playing = Inr (Some \<lparr>Item = None, Current_Progress = 0\<rparr>),
       track_open = None, track_write = None\<rparr>]
     (NewClient \<lparr>AccessToken = ''a'', RefreshToken = ''r'', Expiry = 0\<rparr>,
      \<lparr>AccessToken = ''a'', RefreshToken = ''r'', Expiry = 0\<rparr>))) =
     [OpenFile ''/tmp/fifoplayer-track'',
      File_WriteString ''/tmp/fifoplayer-track'' ''No track currently playing'',
      File_Close ''/tmp/fifoplayer-track'']"
proof -
  let ?io = "\<lparr>track_now = 5, track_playing = Inr (Some \<lparr>Item = None, Current_Progress = 0\<rparr>),
      track_open = None, track_write = None\<rparr>"
  let ?client = "NewClient \<lparr>AccessToken = ''a'', RefreshToken = ''r'', Expiry = 0\<rparr>"
  have fetched: "snd (fetchTrackDetails ?client (track_playing ?io)) = Inr None"
    by (simp add: fetchTrackDetails_def)
  have opened: "track_open ?io = None" by simp
  from no_track_sentinel [of _ _ ?client ?io] fetched opened show ?thesis by blast
qed

section \<open>Lemmas on the passes of the two loops\<close>

lemma trackLoop_Exit:
  "snd (trackIteration pipe io vars) = Exit msg \<Longrightarrow>
     trackLoop pipe (io # ios) vars = trackIteration pipe io vars"
  by (cases "trackIteration pipe io vars") simp

lemma controlLoop_Exit:
  "snd (controlIteration pipe io vars) = Exit msg \<Longrightarrow>
     controlLoop pipe (io # ios) vars = controlIteration pipe io vars"
  by (cases "controlIteration pipe io vars") simp

lemma controlLoop_Continue:
  "snd (controlIteration pipe io vars) = Continue vars' \<Longrightarrow>
     controlLoop pipe (io # ios) vars =
       (fst (controlIteration pipe io vars) @ fst (controlLoop pipe ios vars'),
        snd (controlLoop pipe ios vars'))"
  by (cases "controlIteration pipe io vars") (simp split: prod.splits)

lemma readTrackControlFromPipe_events:
  "filter isControlCall (fst (readTrackControlFromPipe open_err pending pipe)) = [] \<and>
   filter isFetch (fst (readTrackControlFromPipe open_err pending pipe)) = [] \<and>
   filter isRefresh (fst (readTrackControlFromPipe open_err pending pipe)) = []"
  by (simp add: readTrackControlFromPipe_def split: option.splits prod.splits)

lemma controlIteration_read:
  assumes "snd (readTrackControlFromPipe (control_open io) (control_read io) pipe) = Inr action"
  shows "controlIteration pipe io vars =
     (fst (readTrackControlFromPipe (control_open io) (control_read io) pipe) @
      (if Expiry (snd vars) < control_now io then fst (refreshTokenAndClient (snd vars)) else []) @
      switchAction (if Expiry (snd vars) < control_now io then NewClient (snd vars) else fst vars)
        (control_api io) action,
      Continue (if Expiry (snd vars) < control_now io then NewClient (snd vars) else fst vars,
                snd vars))"
proof (cases "readTrackControlFromPipe (control_open io) (control_read io) pipe")
  case (Pair ev r)
  with assms have "r = Inr action" by simp
  with Pair show ?thesis
    by (cases vars) (simp add: controlIteration_def refreshTokenAndClient_def)
qed

lemma controlIteration_failed:
  assumes "snd (readTrackControlFromPipe (control_open io) (control_read io) pipe) = Inl err"
  shows "controlIteration pipe io vars =
     (fst (readTrackControlFromPipe (control_open io) (control_read io) pipe),
      Exit (''unable to fetch track details: '' @ error_text err))"
proof (cases "readTrackControlFromPipe (control_open io) (control_read io) pipe")
  case (Pair ev r)
  with assms have "r = Inl err" by simp
  with Pair show ?thesis
    by (simp add: controlIteration_def)
qed

lemma trackIteration_refreshes:
  "length (filter isRefresh (fst (trackIteration pipe io vars))) =
     (if Expiry (snd vars) < track_now io then 1 else 0)"
  by (simp add: trackIteration_def refreshTokenAndClient_def fetchTrackDetails_def
      writeTrackDetailsToPipe_def Let_def split: sum.splits option.splits prod.splits)

section \<open>Refreshing the token\<close>

text \<open>
  Claim C4, as amended.  A pass of the publisher loop refreshes the token (once) if and
  only if the stored expiry is strictly before the clock at the check.  A pass of the
  control loop does the same once it has read an action; a pass whose read fails exits
  before the check and does not refresh.
\<close>

theorem refresh_when_expired:
  "length (filter isRefresh (fst (trackIteration pipe io vars))) =
     (if Expiry (snd vars) < track_now io then 1 else 0) \<and>
   length (filter isRefresh (fst (controlIteration pipe io' vars))) =
     (case snd (readTrackControlFromPipe (control_open io') (control_read io') pipe) of
        Inl err \<Rightarrow> 0
      | Inr action \<Rightarrow> if Expiry (snd vars) < control_now io' then 1 else 0)"
proof -
  have "length (filter isRefresh (fst (controlIteration pipe io' vars))) =
     (case snd (readTrackControlFromPipe (control_open io') (control_read io') pipe) of
        Inl err \<Rightarrow> 0
      | Inr action \<Rightarrow> if Expiry (snd vars) < control_now io' then 1 else 0)"
  proof (cases "snd (readTrackControlFromPipe (control_open io') (control_read io') pipe)")
    case (Inl err)
    then show ?thesis
      using controlIteration_failed [OF Inl, of vars] readTrackControlFromPipe_events by simp
  next
    case (Inr action)
    then show ?thesis
      using controlIteration_read [OF Inr, of vars] readTrackControlFromPipe_events
      by (simp add: refreshTokenAndClient_def switchAction_def)
  qed
  then show ?thesis using trackIteration_refreshes by simp
qed

text \<open>
  With the expiry at the clock, which claim C4 counts as expired, no refresh is made:
  \<^verbatim>\<open>Before\<close> is strict.
\<close>

theorem refresh_when_expired_counterexample:
  "filter isRefresh (fst (trackIteration ''/tmp/fifoplayer-track''
     \<lparr>track_now = 1000, track_playing = Inr None, track_open = None, track_write = None\<rparr>
     (NewClient \<lparr>AccessToken = ''a'', RefreshToken = ''r'', Expiry = 1000\<rparr>,
      \<lparr>AccessToken = ''a'', RefreshToken = ''r'', Expiry = 1000\<rparr>))) = [] \<and>
   Expiry \<lparr>AccessToken = ''a'', RefreshToken = ''r'', Expiry = 1000\<rparr> \<le>
     track_now \<lparr>track_now = 1000, track_playing = Inr None, track_open = None, track_write = None\<rparr>"
  by (simp add: trackIteration_def fetchTrackDetails_def writeTrackDetailsToPipe_def)


section \<open>Lemmas on reading the control pipe\<close>

lemma readTrackControlFromPipe_Inr:
  "snd (readTrackControlFromPipe open_err pending pipe) = Inr action \<longleftrightarrow>
     open_err = None \<and> (\<exists>bytes. pending = Delivers bytes \<and> bytes \<noteq> [] \<and>
       action = TrimSpace (take 128 bytes))"
  by (auto simp: readTrackControlFromPipe_def file_Read_def split: option.splits pipe_read.splits)

lemma readTrackControlFromPipe_Inl:
  "snd (readTrackControlFromPipe open_err pending pipe) = Inl err \<longleftrightarrow>
     open_err = Some err \<or>
     open_err = None \<and> (pending = Read_Fails err \<or> pending = Delivers [] \<and> err = EOF)"
  by (auto simp: readTrackControlFromPipe_def file_Read_def split: option.splits pipe_read.splits)

lemma TrimSpace_volume: "TrimSpace (take 128 ''volume up'') = ''volume up''"
  by code_simp

lemma TrimSpace_pause: "TrimSpace (take 128 (''  pause'' @ [CHR 0x0A])) = ''pause''"
  by code_simp

lemma file_Read_length: "length (fst (file_Read n pending)) \<le> n"
  by (simp add: file_Read_def split: pipe_read.splits)

lemma TrimSpace_next: "TrimSpace (take 128 (''next'' @ [CHR 0x0A])) = ''next''"
  by code_simp

section \<open>Actions that are not recognised\<close>

text \<open>
  Claim C5, as amended.  When the control pipe delivers at least one byte and the bytes
  read into the buffer of 128 bytes, trimmed of surrounding white space, are none of the
  strings \<open>''play''\<close>, \<open>''pause''\<close> and \<open>''next''\<close>, the pass of the control loop calls neither
  play, pause nor next (nor fetches the playback state), ends without exiting, and the loop
  goes on to its next read.
\<close>

theorem unrecognized_action_ignored:
  assumes "control_open io = None" and "control_read io = Delivers payload" and "payload \<noteq> []"
    and "TrimSpace (take 128 payload) \<notin> {''play'', ''pause'', ''next''}"
  shows "snd (readTrackControlFromPipe (control_open io) (control_read io) pipe) =
           Inr (TrimSpace (take 128 payload)) \<and>
         filter isControlCall (fst (controlIteration pipe io vars)) = [] \<and>
         filter isFetch (fst (controlIteration pipe io vars)) = [] \<and>
         (\<exists>vars'. snd (controlIteration pipe io vars) = Continue vars' \<and>
            controlLoop pipe (io # ios) vars =
              (fst (controlIteration pipe io vars) @ fst (controlLoop pipe ios vars'),
               snd (controlLoop pipe ios vars')))"
proof -
  let ?action = "TrimSpace (take 128 payload)"
  have rd: "snd (readTrackControlFromPipe (control_open io) (control_read io) pipe) = Inr ?action"
    using assms(1-3) by (simp add: readTrackControlFromPipe_Inr)
  have none: "switchAction client api ?action = []" for client api
    using assms(4) by (simp add: switchAction_def Play_def Pause_def Next_def)
  note it = controlIteration_read [OF rd, of vars]
  have calls: "filter isControlCall (fst (controlIteration pipe io vars)) = []"
    using it readTrackControlFromPipe_events [of "control_open io" "control_read io" pipe]
    by (simp add: none refreshTokenAndClient_def)
  have fetches: "filter isFetch (fst (controlIteration pipe io vars)) = []"
    using it readTrackControlFromPipe_events [of "control_open io" "control_read io" pipe]
    by (simp add: none refreshTokenAndClient_def)
  obtain vars' where cont: "snd (controlIteration pipe io vars) = Continue vars'"
    using it by simp
  from controlLoop_Continue [OF cont, of ios] cont rd calls fetches show ?thesis by blast
qed

theorem unrecognized_action_ignored_witness:
  "filter isControlCall (fst (controlIteration ''/tmp/fifoplayer-control''
     \<lparr>control_open = None, control_read = Delivers ''volume up'', control_now = 5,
      control_api = None\<rparr>
     (NewClient \<lparr>AccessToken = ''a'', RefreshToken = ''r'', Expiry = 9\<rparr>,
      \<lparr>AccessToken = ''a'', RefreshToken = ''r'', Expiry = 9\<rparr>))) = [] \<and>
   (\<exists>vars'. snd (controlIteration ''/tmp/fifoplayer-control''
     \<lparr>control_open = None, control_read = Delivers ''volume up'', control_now = 5,
      control_api = None\<rparr>
     (NewClient \<lparr>AccessToken = ''a'', RefreshToken = ''r'', Expiry = 9\<rparr>,
      \<lparr>AccessToken = ''a'', RefreshToken = ''r'', Expiry = 9\<rparr>)) = Continue vars')"
proof -
  let ?io = "\<lparr>control_open = None, control_read = Delivers ''volume up'', control_now = 5,
      control_api = None\<rparr>"
  have a: "control_open ?io = None" and b: "control_read ?io = Delivers ''volume up''"
    and c: "''volume up'' \<noteq> []"
    by simp_all
  have d: "TrimSpace (take 128 ''volume up'') \<notin> {''play'', ''pause'', ''next''}"
    unfolding TrimSpace_volume by simp
  from unrecognized_action_ignored [OF a b c d] show ?thesis by blast
qed


text \<open>
  For every input, as claim C5 states it, the property fails at the empty input: when the
  writer closes the control pipe without writing, the read returns \<^verbatim>\<open>io.EOF\<close> and the pass
  exits the process, although the empty string is none of the three actions.
\<close>

theorem unrecognized_action_ignored_counterexample:
  "TrimSpace (take 128 []) \<notin> {''play'', ''pause'', ''next''} \<and>
   controlIteration ''/tmp/fifoplayer-control''
     \<lparr>control_open = None, control_read = Delivers [], control_now = 5, control_api = None\<rparr>
     (NewClient \<lparr>AccessToken = ''a'', RefreshToken = ''r'', Expiry = 9\<rparr>,
      \<lparr>AccessToken = ''a'', RefreshToken = ''r'', Expiry = 9\<rparr>) =
     ([OpenFile ''/tmp/fifoplayer-control'', File_Read ''/tmp/fifoplayer-control'' 128,
       File_Close ''/tmp/fifoplayer-control''],
      Exit ''unable to fetch track details: EOF'')"
proof -
  have "TrimSpace (take 128 []) = []" by code_simp
  then show ?thesis
    by (simp add: controlIteration_def readTrackControlFromPipe_def file_Read_def EOF_def)
qed

section \<open>The pause command\<close>

text \<open>
  Claim C7.  A read takes at most 128 bytes.  When the control pipe delivers two spaces,
  the word pause and a line feed, \<open>readTrackControlFromPipe\<close> opens the pipe, reads into
  the buffer of 128 bytes, closes the pipe and returns \<open>''pause''\<close>; the pass of the control
  loop then makes exactly one call that acts on the player, and it is the pause call; the
  pass ends without exiting whatever the call answers, and the loop goes on to its next
  read.
\<close>

theorem pause_payload_dispatch:
  "length (fst (file_Read 128 pending)) \<le> 128 \<and>
   readTrackControlFromPipe None (Delivers (''  pause'' @ [CHR 0x0A])) pipe =
     ([OpenFile pipe, File_Read pipe 128, File_Close pipe], Inr ''pause'') \<and>
   filter isControlCall (fst (controlIteration pipe
      \<lparr>control_open = None, control_read = Delivers (''  pause'' @ [CHR 0x0A]),
       control_now = now, control_api = api\<rparr> vars)) =
     [Client_Pause (if Expiry (snd vars) < now then NewClient (snd vars) else fst vars)] \<and>
   snd (controlIteration pipe
      \<lparr>control_open = None, control_read = Delivers (''  pause'' @ [CHR 0x0A]),
       control_now = now, control_api = api\<rparr> vars) =
     Continue (if Expiry (snd vars) < now then NewClient (snd vars) else fst vars, snd vars) \<and>
   controlLoop pipe
     (\<lparr>control_open = None, control_read = Delivers (''  pause'' @ [CHR 0x0A]),
       control_now = now, control_api = api\<rparr> # ios) vars =
     (fst (controlIteration pipe
        \<lparr>control_open = None, control_read = Delivers (''  pause'' @ [CHR 0x0A]),
         control_now = now, control_api = api\<rparr> vars) @
      fst (controlLoop pipe ios
        (if Expiry (snd vars) < now then NewClient (snd vars) else fst vars, snd vars)),
      snd (controlLoop pipe ios
        (if Expiry (snd vars) < now then NewClient (snd vars) else fst vars, snd vars)))"
proof -
  let ?io = "\<lparr>control_open = None, control_read = Delivers (''  pause'' @ [CHR 0x0A]),
       control_now = now, control_api = api\<rparr>"
  let ?vars' = "(if Expiry (snd vars) < now then NewClient (snd vars) else fst vars, snd vars)"
  have rd: "readTrackControlFromPipe None (Delivers (''  pause'' @ [CHR 0x0A])) pipe =
     ([OpenFile pipe, File_Read pipe 128, File_Close pipe], Inr ''pause'')"
    using TrimSpace_pause by (simp add: readTrackControlFromPipe_def file_Read_def)
  then have rd': "snd (readTrackControlFromPipe (control_open ?io) (control_read ?io) pipe) =
      Inr ''pause''"
    by simp
  have sw: "switchAction client api ''pause'' =
      [Client_Pause client,
       Log_Print (case api of
                    Some err \<Rightarrow> ''failed to pause track: '' @ error_text err @ [CHR 0x0A]
                  | None \<Rightarrow> ''paused track'')]" for client
    by (simp add: switchAction_def Play_def Pause_def)
  note it = controlIteration_read [OF rd', of vars]
  have calls: "filter isControlCall (fst (controlIteration pipe ?io vars)) =
      [Client_Pause (if Expiry (snd vars) < now then NewClient (snd vars) else fst vars)]"
    using it rd by (simp add: sw refreshTokenAndClient_def)
  have cont: "snd (controlIteration pipe ?io vars) = Continue ?vars'"
    using it by simp
  from controlLoop_Continue [OF cont, of ios] calls cont rd file_Read_length [of 128 pending]
  show ?thesis by simp
qed

section \<open>Errors in the publisher loop\<close>

text \<open>
  Claim C8.  In a pass of the publisher loop, an error returned by \<open>fetchTrackDetails\<close>, or
  by \<open>writeTrackDetailsToPipe\<close>, exits the process with a message that names the failed
  step and the error.  The playback state was fetched once, no more than one write was
  attempted (none after a failed fetch), and the loop makes no further pass.
\<close>

theorem publisher_errors_fatal:
  "(snd (fetchTrackDetails client (track_playing io)) = Inl err \<longrightarrow>
      snd (trackIteration pipe io vars) =
        Exit (''unable to fetch track details: '' @ error_text err) \<and>
      length (filter isFetch (fst (trackIteration pipe io vars))) = 1 \<and>
      written (fst (trackIteration pipe io vars)) = [] \<and>
      trackLoop pipe (io # ios) vars = trackIteration pipe io vars) \<and>
   (snd (fetchTrackDetails client (track_playing io)) = Inr details \<and>
    snd (writeTrackDetailsToPipe (track_open io) (track_write io) pipe details) = Some err \<longrightarrow>
      snd (trackIteration pipe io vars) =
        Exit (''unable to write to named pipe: '' @ error_text err) \<and>
      length (filter isFetch (fst (trackIteration pipe io vars))) = 1 \<and>
      length (written (fst (trackIteration pipe io vars))) \<le> 1 \<and>
      trackLoop pipe (io # ios) vars = trackIteration pipe io vars)"
proof -
  have fetch_case: "snd (trackIteration pipe io vars) =
        Exit (''unable to fetch track details: '' @ error_text err) \<and>
      length (filter isFetch (fst (trackIteration pipe io vars))) = 1 \<and>
      written (fst (trackIteration pipe io vars)) = []"
    if "snd (fetchTrackDetails client (track_playing io)) = Inl err"
  proof -
    from that have "track_playing io = Inl err"
      by (simp add: fetchTrackDetails_def Let_def split: sum.splits option.splits)
    then show ?thesis
      by (simp add: trackIteration_def fetchTrackDetails_def refreshTokenAndClient_def
          split: prod.splits)
  qed
  have write_case: "snd (trackIteration pipe io vars) =
        Exit (''unable to write to named pipe: '' @ error_text err) \<and>
      length (filter isFetch (fst (trackIteration pipe io vars))) = 1 \<and>
      length (written (fst (trackIteration pipe io vars))) \<le> 1"
    if f: "snd (fetchTrackDetails client (track_playing io)) = Inr details"
      and w: "snd (writeTrackDetailsToPipe (track_open io) (track_write io) pipe details) = Some err"
  proof -
    have all: "fetchTrackDetails c (track_playing io) = ([Client_PlayerCurrentlyPlaying c], Inr details)"
      for c
      using f fetchTrackDetails_client [of c "track_playing io" client]
        fetchTrackDetails_events [of c "track_playing io"]
      by (metis prod.collapse)
    obtain ev where ev: "writeTrackDetailsToPipe (track_open io) (track_write io) pipe details =
        (ev, Some err)"
      using w by (metis prod.collapse)
    then have "filter isFetch ev = [] \<and> length (written ev) \<le> 1"
      by (auto simp: writeTrackDetailsToPipe_def split: option.splits)
    with ev all show ?thesis
      by (simp add: trackIteration_def refreshTokenAndClient_def written_append
          split: prod.splits)
  qed
  show ?thesis
    using fetch_case write_case trackLoop_Exit [of pipe io vars _ ios] by metis
qed


theorem publisher_errors_fatal_witness:
  "trackLoop ''/tmp/fifoplayer-track''
     [\<lparr>track_now = 5, track_playing = Inl (Error ''timeout''), track_open = None,
       track_write = None\<rparr>,
      \<lparr>track_now = 8, track_playing = Inr None, track_open = None, track_write = None\<rparr>]
     (NewClient \<lparr>AccessToken = ''a'', RefreshToken = ''r'', Expiry = 9\<rparr>,
      \<lparr>AccessToken = ''a'', RefreshToken = ''r'', Expiry = 9\<rparr>) =
     ([Client_PlayerCurrentlyPlaying
         (NewClient \<lparr>AccessToken = ''a'', RefreshToken = ''r'', Expiry = 9\<rparr>)],
      Exit ''unable to fetch track details: timeout'') \<and>
   trackLoop ''/tmp/fifoplayer-track''
     [\<lparr>track_now = 5, track_playing = Inr None, track_open = None,
       track_write = Some (Error ''broken pipe'')\<rparr>,
      \<lparr>track_now = 8, track_playing = Inr None, track_open = None, track_write = None\<rparr>]
     (NewClient \<lparr>AccessToken = ''a'', RefreshToken = ''r'', Expiry = 9\<rparr>,
      \<lparr>AccessToken = ''a'', RefreshToken = ''r'', Expiry = 9\<rparr>) =
     ([Client_PlayerCurrentlyPlaying
         (NewClient \<lparr>AccessToken = ''a'', RefreshToken = ''r'', Expiry = 9\<rparr>),
       OpenFile ''/tmp/fifoplayer-track'',
       File_WriteString ''/tmp/fifoplayer-track'' ''No track currently playing'',
       File_Close ''/tmp/fifoplayer-track''],
      Exit ''unable to write to named pipe: broken pipe'')"
proof -
  let ?token = "\<lparr>AccessToken = ''a'', RefreshToken = ''r'', Expiry = 9\<rparr>"
  let ?io_fetch = "\<lparr>track_now = 5, track_playing = Inl (Error ''timeout''), track_open = None,
       track_write = None\<rparr>"
  let ?io_write = "\<lparr>track_now = 5, track_playing = Inr None, track_open = None,
       track_write = Some (Error ''broken pipe'')\<rparr>"
  let ?pipe = "''/tmp/fifoplayer-track''"
  have f1: "snd (fetchTrackDetails (NewClient ?token) (track_playing ?io_fetch)) = Inl (Error ''timeout'')"
    by (simp add: fetchTrackDetails_def)
  have f2: "snd (fetchTrackDetails (NewClient ?token) (track_playing ?io_write)) = Inr None"
    by (simp add: fetchTrackDetails_def)
  have w2: "snd (writeTrackDetailsToPipe (track_open ?io_write) (track_write ?io_write) ?pipe None) =
      Some (Error ''broken pipe'')"
    by (simp add: writeTrackDetailsToPipe_def)
  have it1: "trackIteration ?pipe ?io_fetch (NewClient ?token, ?token) =
      ([Client_PlayerCurrentlyPlaying (NewClient ?token)],
       Exit ''unable to fetch track details: timeout'')"
    by (simp add: trackIteration_def fetchTrackDetails_def)
  have it2: "trackIteration ?pipe ?io_write (NewClient ?token, ?token) =
      ([Client_PlayerCurrentlyPlaying (NewClient ?token), OpenFile ?pipe,
        File_WriteString ?pipe ''No track currently playing'', File_Close ?pipe],
       Exit ''unable to write to named pipe: broken pipe'')"
    by (simp add: trackIteration_def fetchTrackDetails_def writeTrackDetailsToPipe_def)
  from publisher_errors_fatal [of "NewClient ?token" ?io_fetch "Error ''timeout''" ?pipe
      "(NewClient ?token, ?token)" _ None] f1
  have l1: "trackLoop ?pipe (?io_fetch # ios) (NewClient ?token, ?token) =
      trackIteration ?pipe ?io_fetch (NewClient ?token, ?token)" for ios
    by blast
  from publisher_errors_fatal [of "NewClient ?token" ?io_write "Error ''broken pipe''" ?pipe
      "(NewClient ?token, ?token)" _ None] f2 w2
  have l2: "trackLoop ?pipe (?io_write # ios) (NewClient ?token, ?token) =
      trackIteration ?pipe ?io_write (NewClient ?token, ?token)" for ios
    by blast
  show ?thesis
    unfolding l1 l2 it1 it2 by simp
qed

section \<open>Errors of the dispatched API call\<close>

text \<open>
  Claim C9.  In a pass of the control loop that has read one of the actions play, pause
  and next, an error returned by the API call it dispatches is logged (the last thing the
  pass does is to print the failure with the error) and the pass ends without exiting: the
  loop goes on to its next read.
\<close>

theorem control_api_errors_swallowed:
  assumes "snd (readTrackControlFromPipe (control_open io) (control_read io) pipe) = Inr action"
    and "action \<in> {Play, Pause, Next}"
    and "control_api io = Some err"
  shows "length (filter isControlCall (fst (controlIteration pipe io vars))) = 1 \<and>
     last (fst (controlIteration pipe io vars)) =
       Log_Print (''failed to '' @
         (if action = Play then ''play'' else if action = Pause then ''pause'' else ''skip'') @
         '' track: '' @ error_text err @ [CHR 0x0A]) \<and>
     (\<exists>vars'. snd (controlIteration pipe io vars) = Continue vars' \<and>
        controlLoop pipe (io # ios) vars =
          (fst (controlIteration pipe io vars) @ fst (controlLoop pipe ios vars'),
           snd (controlLoop pipe ios vars')))"
proof -
  note it = controlIteration_read [OF assms(1), of vars]
  note rd = readTrackControlFromPipe_events [of "control_open io" "control_read io" pipe]
  have calls: "length (filter isControlCall (fst (controlIteration pipe io vars))) = 1"
    using it rd assms(2) by (auto simp: switchAction_def refreshTokenAndClient_def)
  have logged: "last (fst (controlIteration pipe io vars)) =
       Log_Print (''failed to '' @
         (if action = Play then ''play'' else if action = Pause then ''pause'' else ''skip'') @
         '' track: '' @ error_text err @ [CHR 0x0A])"
    using it assms(2,3) by (auto simp: switchAction_def Play_def Pause_def Next_def)
  obtain vars' where cont: "snd (controlIteration pipe io vars) = Continue vars'"
    using it by simp
  from controlLoop_Continue [OF cont, of ios] cont calls logged show ?thesis by blast
qed

theorem control_api_errors_swallowed_witness:
  "controlLoop ''/tmp/fifoplayer-control''
     [\<lparr>control_open = None, control_read = Delivers (''next'' @ [CHR 0x0A]), control_now = 5,
       control_api = Some (Error ''no active device'')\<rparr>]
     (NewClient \<lparr>AccessToken = ''a'', RefreshToken = ''r'', Expiry = 9\<rparr>,
      \<lparr>AccessToken = ''a'', RefreshToken = ''r'', Expiry = 9\<rparr>) =
     ([OpenFile ''/tmp/fifoplayer-control'', File_Read ''/tmp/fifoplayer-control'' 128,
       File_Close ''/tmp/fifoplayer-control'',
       Client_Next (NewClient \<lparr>AccessToken = ''a'', RefreshToken = ''r'', Expiry = 9\<rparr>),
       Log_Print (''failed to skip track: no active device'' @ [CHR 0x0A])],
      Continue (NewClient \<lparr>AccessToken = ''a'', RefreshToken = ''r'', Expiry = 9\<rparr>,
                \<lparr>AccessToken = ''a'', RefreshToken = ''r'', Expiry = 9\<rparr>))"
proof -
  let ?token = "\<lparr>AccessToken = ''a'', RefreshToken = ''r'', Expiry = 9\<rparr>"
  let ?io = "\<lparr>control_open = None, control_read = Delivers (''next'' @ [CHR 0x0A]),
       control_now = 5, control_api = Some (Error ''no active device'')\<rparr>"
  let ?pipe = "''/tmp/fifoplayer-control''"
  have rd: "readTrackControlFromPipe None (Delivers (''next'' @ [CHR 0x0A])) ?pipe =
      ([OpenFile ?pipe, File_Read ?pipe 128, File_Close ?pipe], Inr ''next'')"
    using TrimSpace_next by (simp add: readTrackControlFromPipe_def file_Read_def)
  then have a: "snd (readTrackControlFromPipe (control_open ?io) (control_read ?io) ?pipe) =
      Inr ''next''"
    by simp
  have b: "''next'' \<in> {Play, Pause, Next}" by (simp add: Next_def)
  have c: "control_api ?io = Some (Error ''no active device'')" by simp
  have it: "controlIteration ?pipe ?io (NewClient ?token, ?token) =
      ([OpenFile ?pipe, File_Read ?pipe 128, File_Close ?pipe, Client_Next (NewClient ?token),
        Log_Print (''failed to skip track: no active device'' @ [CHR 0x0A])],
       Continue (NewClient ?token, ?token))"
    using rd by (simp add: controlIteration_def switchAction_def Play_def Pause_def Next_def)
  from control_api_errors_swallowed [OF a b c, of "(NewClient ?token, ?token)" "[]"]
  obtain vars' where "snd (controlIteration ?pipe ?io (NewClient ?token, ?token)) = Continue vars'"
    and "controlLoop ?pipe [?io] (NewClient ?token, ?token) =
          (fst (controlIteration ?pipe ?io (NewClient ?token, ?token)) @
             fst (controlLoop ?pipe [] vars'),
           snd (controlLoop ?pipe [] vars'))"
    by blast
  then show ?thesis unfolding it by simp
qed

section \<open>Errors of the control pipe\<close>

text \<open>
  Claim C10.  When \<open>readTrackControlFromPipe\<close> returns an error, because opening the control
  pipe failed, or the read failed, or the read found the pipe closed with nothing written,
  the pass of the control loop exits the process with a message that carries the error;
  it calls nothing that acts on the player, and the loop makes no further pass.
\<close>

theorem control_pipe_errors_fatal:
  assumes "snd (readTrackControlFromPipe (control_open io) (control_read io) pipe) = Inl err"
  shows "snd (controlIteration pipe io vars) =
       Exit (''unable to fetch track details: '' @ error_text err) \<and>
     controlLoop pipe (io # ios) vars = controlIteration pipe io vars \<and>
     filter isControlCall (fst (controlIteration pipe io vars)) = [] \<and>
     (control_open io = Some err \<or>
      control_open io = None \<and>
        (control_read io = Read_Fails err \<or> control_read io = Delivers [] \<and> err = EOF))"
proof -
  note it = controlIteration_failed [OF assms, of vars]
  note rd = readTrackControlFromPipe_events [of "control_open io" "control_read io" pipe]
  have ex: "snd (controlIteration pipe io vars) =
       Exit (''unable to fetch track details: '' @ error_text err)"
    using it by simp
  have calls: "filter isControlCall (fst (controlIteration pipe io vars)) = []"
    using it rd by simp
  from controlLoop_Exit [OF ex, of ios] ex calls assms show ?thesis
    by (simp add: readTrackControlFromPipe_Inl)
qed

theorem control_pipe_errors_fatal_witness:
  "controlLoop ''/tmp/fifoplayer-control''
     [\<lparr>control_open = None, control_read = Delivers [], control_now = 5, control_api = None\<rparr>,
      \<lparr>control_open = None, control_read = Delivers ''play'', control_now = 8,
       control_api = None\<rparr>]
     (NewClient \<lparr>AccessToken = ''a'', RefreshToken = ''r'', Expiry = 9\<rparr>,
      \<lparr>AccessToken = ''a'', RefreshToken = ''r'', Expiry = 9\<rparr>) =
     ([OpenFile ''/tmp/fifoplayer-control'', File_Read ''/tmp/fifoplayer-control'' 128,
       File_Close ''/tmp/fifoplayer-control''],
      Exit ''unable to fetch track details: EOF'')"
proof -
  let ?token = "\<lparr>AccessToken = ''a'', RefreshToken = ''r'', Expiry = 9\<rparr>"
  let ?io = "\<lparr>control_open = None, control_read = Delivers [], control_now = 5,
      control_api = None\<rparr>"
  let ?pipe = "''/tmp/fifoplayer-control''"
  have rd: "readTrackControlFromPipe None (Delivers []) ?pipe =
      ([OpenFile ?pipe, File_Read ?pipe 128, File_Close ?pipe], Inl EOF)"
    by (simp add: readTrackControlFromPipe_def file_Read_def)
  then have a: "snd (readTrackControlFromPipe (control_open ?io) (control_read ?io) ?pipe) =
      Inl EOF"
    by simp
  have it: "controlIteration ?pipe ?io (NewClient ?token, ?token) =
      ([OpenFile ?pipe, File_Read ?pipe 128, File_Close ?pipe],
       Exit ''unable to fetch track details: EOF'')"
    using rd by (simp add: controlIteration_def EOF_def)
  from control_pipe_errors_fatal [OF a, of "(NewClient ?token, ?token)"]
  have loop: "controlLoop ?pipe (?io # ios) (NewClient ?token, ?token) =
      controlIteration ?pipe ?io (NewClient ?token, ?token)" for ios
    by blast
  show ?thesis by (simp only: loop it)
qed


end
